theory Spec2Isabelle
  imports Main "HOL-Library.Sublist"
begin

section \<open>Package command: the command guard (help.go)\<close>

text \<open>
  Go strings are byte strings and are modelled as \<open>string\<close>. A Go slice is a list; the
  nil slice and the empty slice are both \<open>[]\<close> (the code only ever takes their length
  or ranges over them). A Go \<open>error\<close> is a value of the datatype below; the sentinel
  errors of the two packages are distinct constructors, as the Go values are distinct
  pointers.
\<close>

datatype error =
    errUnsupportedCommand
  | errRequiredCmdDropdown
  | ErrCmdNotSupported
  | ErrResourceNotFound
  | ErrGroupDiscoveryFailed "(string \<times> string) list"
  | ExternalError string
  | Wrapped string error

record Resource =
  res_Name :: string
  res_Namespaced :: bool

record APIResource =
  api_Name :: string
  api_Namespaced :: bool
  api_Kind :: string

record APIResourceList =
  GroupVersion :: string
  APIResources :: "APIResource list"

text \<open>The package-level tables. A Go map is a partial function on its keys.\<close>

definition unsupportedGlobalCmds :: "string \<rightharpoonup> unit" where
  "unsupportedGlobalCmds = [''playground'' \<mapsto> (), ''bench'' \<mapsto> ()]"

definition cmdResource :: "string \<rightharpoonup> Resource" where
  "cmdResource = [''cluster'' \<mapsto> \<lparr>res_Name = ''cluster'', res_Namespaced = True\<rparr>]"

definition clusterVerbs :: "string list" where
  "clusterVerbs =
    [''create'', ''connect'', ''describe'', ''list'', ''list-instances'', ''list-components'',
     ''list-events'', ''list-accounts'', ''delete'',
     ''update'', ''restart'', ''upgrade'', ''volume-expand'', ''vscale'', ''hscale'',
     ''describe-ops'', ''list-ops'', ''delete-ops'', ''configure'', ''expose'',
     ''describe-configure'', ''explain-configure'', ''diff-configure'', ''stop'', ''start'',
     ''backup'', ''list-backups'', ''delete-backup'', ''restore'', ''list-restores'',
     ''delete-restore'',
     ''logs'', ''list-logs'']"

definition kubeblocksVerbs :: "string list" where
  "kubeblocksVerbs =
    [''install'', ''list-versions'', ''preflight'', ''status'', ''uninstall'', ''upgrade'']"

definition cmdVerbs :: "string \<rightharpoonup> string list" where
  "cmdVerbs =
    [''cluster'' \<mapsto> clusterVerbs,
     ''kubeblocks'' \<mapsto> kubeblocksVerbs,
     ''clusterdefinition'' \<mapsto> [''list''],
     ''clusterversion'' \<mapsto> [''list'']]"

text \<open>
  \<open>slices.Filter(d, s, keep)\<close> of k8s.io/utils appends to \<open>d\<close>, in order, every element
  of \<open>s\<close> that \<open>keep\<close> accepts.
\<close>

fun slices_Filter :: "string list \<Rightarrow> string list \<Rightarrow> (string \<Rightarrow> bool) \<Rightarrow> string list" where
  "slices_Filter d [] keep = d"
| "slices_Filter d (s # ss) keep =
     (if keep s then slices_Filter (d @ [s]) ss keep else slices_Filter d ss keep)"

definition FilterSupportedCmds :: "string list \<Rightarrow> string list" where
  "FilterSupportedCmds allVerbs =
     slices_Filter [] allVerbs
       (\<lambda>s. case unsupportedGlobalCmds s of Some _ \<Rightarrow> False | None \<Rightarrow> True)"

text \<open>
  \<open>GetAllowedVerbsForCmd(cmd, verbs)\<close>: the first statement rebinds \<open>verbs\<close> to the table
  entry, so the parameter is never read. An unknown command gives \<open>nil, nil\<close>.
\<close>

definition GetAllowedVerbsForCmd :: "string \<Rightarrow> string list \<Rightarrow> error + string list" where
  "GetAllowedVerbsForCmd cmd verbs =
     (case cmdVerbs cmd of
        None \<Rightarrow> Inr []
      | Some verbs' \<Rightarrow> Inr verbs')"

definition GetResourceDetails :: "string \<Rightarrow> error + Resource" where
  "GetResourceDetails cmd =
     (case cmdResource cmd of
        None \<Rightarrow> Inr \<lparr>res_Name = [], res_Namespaced = False\<rparr>
      | Some res \<Rightarrow> Inr res)"

definition GetResourceTypeForCmd :: "string \<Rightarrow> string" where
  "GetResourceTypeForCmd cmd =
     (case cmdResource cmd of None \<Rightarrow> [] | Some resource \<Rightarrow> res_Name resource)"

text \<open>\<open>strings.Contains(s, substr)\<close>: \<open>substr\<close> occurs in \<open>s\<close> as a contiguous block.\<close>

fun strings_HasPrefix :: "string \<Rightarrow> string \<Rightarrow> bool" where
  "strings_HasPrefix s [] = True"
| "strings_HasPrefix [] (p # ps) = False"
| "strings_HasPrefix (c # cs) (p # ps) = (c = p \<and> strings_HasPrefix cs ps)"

fun strings_Contains :: "string \<Rightarrow> string \<Rightarrow> bool" where
  "strings_Contains [] substr = (substr = [])"
| "strings_Contains (c # cs) substr =
     (strings_HasPrefix (c # cs) substr \<or> strings_Contains cs substr)"

text \<open>
  \<open>shouldIgnoreResourceListError\<close>: the type assertion succeeds only for a group
  discovery failure; the loop over its \<open>Groups\<close> map returns false at the first
  sub-error whose text lacks the marker. The map is given as the list of its entries in
  the order the loop visits them.
\<close>

fun ignoreGroups :: "(string \<times> string) list \<Rightarrow> bool" where
  "ignoreGroups [] = True"
| "ignoreGroups ((gv, currentErr) # rest) =
     (if strings_Contains currentErr ''Got empty response for''
      then ignoreGroups rest
      else False)"

fun shouldIgnoreResourceListError :: "error \<Rightarrow> bool" where
  "shouldIgnoreResourceListError (ErrGroupDiscoveryFailed groups) = ignoreGroups groups"
| "shouldIgnoreResourceListError _ = False"

datatype LogLevel = DebugLevel | InfoLevel | WarnLevel | ErrorLevel

text \<open>
  The inner and the outer loop of \<open>GetServerResourceMap\<close>: a name already in the map is
  skipped (and reported at debug level), any other is stored.
\<close>

fun addResources ::
  "string \<Rightarrow> APIResource list \<Rightarrow> (string \<rightharpoonup> APIResource) \<Rightarrow> (string \<rightharpoonup> APIResource)" where
  "addResources gv [] resourceMap = resourceMap"
| "addResources gv (res # rest) resourceMap =
     (case resourceMap (api_Name res) of
        Some _ \<Rightarrow> addResources gv rest resourceMap
      | None \<Rightarrow> addResources gv rest (resourceMap(api_Name res \<mapsto> res)))"

fun addLists ::
  "APIResourceList list \<Rightarrow> (string \<rightharpoonup> APIResource) \<Rightarrow> (string \<rightharpoonup> APIResource)" where
  "addLists [] resourceMap = resourceMap"
| "addLists (item # items) resourceMap =
     addLists items (addResources (GroupVersion item) (APIResources item) resourceMap)"

text \<open>
  \<open>GetServerResourceMap\<close>: the discovery client's answer \<open>(resList, err)\<close> is the
  argument. A discovery error that is not to be ignored is returned wrapped; otherwise
  the lists that did arrive are merged.
\<close>

definition GetServerResourceMap ::
  "APIResourceList list \<times> error option \<Rightarrow> error + (string \<rightharpoonup> APIResource)" where
  "GetServerResourceMap discovered =
     (case discovered of (resList, err) \<Rightarrow>
        (case err of
           Some e \<Rightarrow>
             if \<not> shouldIgnoreResourceListError e
             then Inl (Wrapped ''while getting resource list from K8s cluster: '' e)
             else Inr (addLists resList Map.empty)
         | None \<Rightarrow> Inr (addLists resList Map.empty)))"

definition GetResourceDetailsFromMap ::
  "string \<Rightarrow> (string \<rightharpoonup> APIResource) \<Rightarrow> error + Resource" where
  "GetResourceDetailsFromMap resourceType resMap =
     (case resMap resourceType of
        None \<Rightarrow> Inl ErrResourceNotFound
      | Some res \<Rightarrow> Inr \<lparr>res_Name = api_Name res, res_Namespaced = api_Namespaced res\<rparr>)"

section \<open>Package builder: configuration\<close>

record AllowedResources =
  Namespaces :: "string list"
  Cmds :: "string list"
  Verbs :: "string list"

record Config =
  Allowed :: AllowedResources

definition DefaultConfig :: Config where
  "DefaultConfig =
     \<lparr>Allowed =
        \<lparr>Namespaces = [],
         Cmds = [''cluster'', ''kubeblocks'', ''clusterdefinition'', ''clusterversion'',
                 ''playground''],
         Verbs = [''list'']\<rparr>\<rparr>"

section \<open>Package builder: the interactive command builder (kbcli.go)\<close>

definition interactiveBuilderIndicator :: string where
  "interactiveBuilderIndicator = ''@builder''"

definition cmdsDropdownCommand :: string where
  "cmdsDropdownCommand = ''@builder --cmds''"

definition verbsDropdownCommand :: string where
  "verbsDropdownCommand = ''@builder --verbs''"

definition resourceNamesDropdownCommand :: string where
  "resourceNamesDropdownCommand = ''@builder --resource-name''"

definition resourceNamespaceDropdownCommand :: string where
  "resourceNamespaceDropdownCommand = ''@builder --namespace''"


definition kbcliCommandName :: string where
  "kbcliCommandName = ''kbcli''"

definition dropdownItemsLimit :: nat where
  "dropdownItemsLimit = 100"


subsection \<open>Go library functions\<close>









text \<open>
  \<open>%q\<close> of \<open>fmt\<close> is \<open>strconv.Quote\<close>: the text between double quotes, with the
  quote and the backslash escaped, the control characters written as Go escapes, and
  printable characters as they are. Bytes from 0x80 on are taken as parts of printable
  runes.
\<close>

definition hexDigit :: "nat \<Rightarrow> char" where
  "hexDigit n = (if n < 10 then char_of (48 + n) else char_of (87 + n))"

definition quoteChar :: "char \<Rightarrow> string" where
  "quoteChar c =
     (let n = (of_char c :: nat) in
      if c = CHR 0x22 then [CHR 0x5C, CHR 0x22]
      else if c = CHR 0x5C then [CHR 0x5C, CHR 0x5C]
      else if c = CHR 0x07 then [CHR 0x5C, CHR ''a'']
      else if c = CHR 0x08 then [CHR 0x5C, CHR ''b'']
      else if c = CHR 0x0C then [CHR 0x5C, CHR ''f'']
      else if c = CHR 0x0A then [CHR 0x5C, CHR ''n'']
      else if c = CHR 0x0D then [CHR 0x5C, CHR ''r'']
      else if c = CHR 0x09 then [CHR 0x5C, CHR ''t'']
      else if c = CHR 0x0B then [CHR 0x5C, CHR ''v'']
      else if n < 32 \<or> n = 127 then [CHR 0x5C, CHR ''x'', hexDigit (n div 16), hexDigit (n mod 16)]
      else [c])"

definition strconv_Quote :: "string \<Rightarrow> string" where
  "strconv_Quote s = [CHR 0x22] @ concat (map quoteChar s) @ [CHR 0x22]"

subsection \<open>Messages, menus and the menu assembler\<close>

text \<open>
  The message types of package \<open>api\<close> and the menu assembler of package \<open>builder\<close>
  (\<open>CmdSelect\<close>, \<open>VerbSelect\<close>, \<open>ResourceNamesSelect\<close>, \<open>ResourceNamespaceSelect\<close>,
  \<open>EmptyResourceNameDropdown\<close>, \<open>newDropdownItem\<close>, \<open>getNonEmptyLines\<close>,
  \<open>overflowSentence\<close>, \<open>KbcliCmdBuilderMessage\<close>, \<open>PreviewSection\<close>,
  \<open>InternalErrorSection\<close>) are used by kbcli.go and declared in files of the
  repository other than the source files modelled here. They are modelled from the
  specification (sections 3, 4.4 and 6); each such definition says so.
\<close>

text \<open>
  Modelled from the spec: \<open>dropdownItem\<close> (kbcli.go reads its field \<open>Name\<close>) and
  \<open>api.OptionItem\<close> (kbcli.go reads its field \<open>Value\<close>), the MenuOption of section
  3: a label and a value.
\<close>

record dropdownItem =
  dd_Name :: string
  dd_Value :: string

record OptionItem =
  opt_Name :: string
  opt_Value :: string

text \<open>
  Modelled from the spec: \<open>api.Select\<close>, the Menu of section 3: the routing identifier
  of the widget, the ordered options, and the optional initially selected option.
\<close>

record Select =
  Command :: string
  Options :: "OptionItem list"
  InitialOption :: "OptionItem option"

text \<open>
  Modelled from the spec: \<open>api.Section\<close> and \<open>api.Message\<close>, the render result of
  section 6: a block of menus under a group identifier, a plain text body, a command
  preview carrying its text (shown with the filter input), or the internal-error notice.
\<close>

datatype Section =
    SelectsSection string "Select list"
  | PlaintextSection string
  | PreviewBlock string
  | InternalErrorBlock

record Message =
  ReplaceOriginal :: bool
  OnlyVisibleForYou :: bool
  Sections :: "Section list"
  BaseBody :: string

text \<open>Modelled from the spec: \<open>newDropdownItem\<close>, a label and value pair.\<close>

definition newDropdownItem :: "string \<Rightarrow> string \<Rightarrow> dropdownItem" where
  "newDropdownItem name val = \<lparr>dd_Name = name, dd_Value = val\<rparr>"

text \<open>Modelled from the spec: a dropdown item becomes the option with its label and value.\<close>

definition toOption :: "dropdownItem \<Rightarrow> OptionItem" where
  "toOption i = \<lparr>opt_Name = dd_Name i, opt_Value = dd_Value i\<rparr>"

text \<open>
  Modelled from the spec: the menu builder behind the four \<open>*Select\<close> functions
  (section 4.4): no menu for an empty sequence of items; otherwise the items in order,
  and the initial item as the initial selection exactly when it is one of the items
  (section 3: an initial selection is always among the options; section 4.3 step 3: no
  initial selection for a verb that is not in the verb set).
\<close>

definition selectDropdown :: "string \<Rightarrow> dropdownItem list \<Rightarrow> dropdownItem \<Rightarrow> Select option" where
  "selectDropdown command items initialItem =
     (if items = [] then None
      else Some \<lparr>Command = command,
                 Options = map toOption items,
                 InitialOption =
                   (if initialItem \<in> set items then Some (toOption initialItem) else None)\<rparr>)"

text \<open>
  Modelled from the spec: a menu over plain strings (commands, verbs) shows each string
  as the label and the value of its option.
\<close>

definition dropdownItemsFromSlice :: "string list \<Rightarrow> dropdownItem list" where
  "dropdownItemsFromSlice names = map (\<lambda>n. newDropdownItem n n) names"

text \<open>Modelled from the spec: \<open>CmdSelect\<close>, the root command menu.\<close>

definition CmdSelect :: "string list \<Rightarrow> string \<Rightarrow> Select option" where
  "CmdSelect cmds initialItem =
     selectDropdown cmdsDropdownCommand (dropdownItemsFromSlice cmds)
       (newDropdownItem initialItem initialItem)"

text \<open>Modelled from the spec: \<open>VerbSelect\<close>, the verb menu.\<close>

definition VerbSelect :: "string list \<Rightarrow> string \<Rightarrow> Select option" where
  "VerbSelect verbs initialItem =
     selectDropdown verbsDropdownCommand (dropdownItemsFromSlice verbs)
       (newDropdownItem initialItem initialItem)"

text \<open>Modelled from the spec: \<open>ResourceNamesSelect\<close>, the resource-name menu.\<close>

definition ResourceNamesSelect :: "dropdownItem list \<Rightarrow> string \<Rightarrow> Select option" where
  "ResourceNamesSelect names initialItem =
     selectDropdown resourceNamesDropdownCommand names
       (newDropdownItem initialItem initialItem)"

text \<open>Modelled from the spec: \<open>ResourceNamespaceSelect\<close>, the namespace menu.\<close>

definition ResourceNamespaceSelect :: "dropdownItem list \<Rightarrow> dropdownItem \<Rightarrow> Select option" where
  "ResourceNamespaceSelect names initialNamespace =
     selectDropdown resourceNamespaceDropdownCommand names initialNamespace"

text \<open>
  Modelled from the spec: \<open>EmptyResourceNameDropdown\<close>, the explicit empty menu
  (sections 4.3 step 4 and 4.4): a menu that is present, with no option and no
  selection.
\<close>

definition EmptyResourceNameDropdown :: "Select option" where
  "EmptyResourceNameDropdown = Some \<lparr>Command = [], Options = [], InitialOption = None\<rparr>"

text \<open>
  Modelled from the spec: \<open>getNonEmptyLines\<close> (section 4.3 step 4): the output split at
  line feeds, the empty lines dropped.
\<close>

fun splitLines :: "string \<Rightarrow> string list" where
  "splitLines [] = [[]]"
| "splitLines (c # cs) =
     (if c = CHR 0x0A then [] # splitLines cs
      else (case splitLines cs of
              [] \<Rightarrow> [[c]]
            | l # ls \<Rightarrow> (c # l) # ls))"

definition getNonEmptyLines :: "string \<Rightarrow> string list" where
  "getNonEmptyLines out = filter (\<lambda>l. l \<noteq> []) (splitLines out)"

text \<open>
  Modelled from the spec: the decimal numeral of a count, for the label of the
  truncation notice.
\<close>

fun showNat :: "nat \<Rightarrow> string" where
  "showNat n =
     (if n < 10 then [char_of (48 + n)]
      else showNat (n div 10) @ [char_of (48 + n mod 10)])"

declare showNat.simps [simp del]

text \<open>
  Modelled from the spec: \<open>overflowSentence\<close> (section 4.4): a list longer than the cap
  of 100 gives the first 100 names and then one synthetic option; its label tells how
  many names are not shown and its value is no resource name. The spec fixes neither
  the wording of the label nor the value: the model takes the empty string as the value,
  the one string that is never a line of \<open>getNonEmptyLines\<close>.
\<close>

definition truncationNotice :: "nat \<Rightarrow> dropdownItem" where
  "truncationNotice hidden =
     \<lparr>dd_Name = ''... and '' @ showNat hidden @ '' more'', dd_Value = []\<rparr>"

definition overflowSentence :: "string list \<Rightarrow> dropdownItem list" where
  "overflowSentence names =
     (if length names > dropdownItemsLimit
      then dropdownItemsFromSlice (take dropdownItemsLimit names)
             @ [truncationNotice (length names - dropdownItemsLimit)]
      else dropdownItemsFromSlice names)"

text \<open>
  Modelled from the spec: \<open>KbcliCmdBuilderMessage\<close> with its options
  \<open>WithAdditionalSelects\<close> and \<open>WithAdditionalSections\<close> (section 6, render result
  (a)): the root menu, then the extra menus that are present, in one block under the
  group identifier, followed by the extra sections; the message replaces the previous
  interactive message.
\<close>

definition KbcliCmdBuilderMessage ::
  "string \<Rightarrow> Select \<Rightarrow> Select option list \<Rightarrow> Section list \<Rightarrow> Message" where
  "KbcliCmdBuilderMessage dropdownsBlockID allCmds selects sections =
     \<lparr>ReplaceOriginal = True,
      OnlyVisibleForYou = True,
      Sections = SelectsSection dropdownsBlockID (allCmds # List.map_filter id selects) # sections,
      BaseBody = []\<rparr>"

text \<open>Modelled from the spec: \<open>PreviewSection(cmd, FilterSection())\<close> and \<open>InternalErrorSection\<close>.\<close>

definition PreviewSection :: "string \<Rightarrow> Section list" where
  "PreviewSection previewText = [PreviewBlock previewText]"

definition InternalErrorSection :: Section where
  "InternalErrorSection = InternalErrorBlock"


subsection \<open>The builder and its collaborators\<close>

text \<open>
  The receiver \<open>Kbcli\<close>. The command guard is the package above. The two collaborators
  are given by their answers: \<open>kcRunner\<close> maps the arguments of \<open>RunKubectlCommand\<close>
  (kubeconfig path, default namespace, command line) to its output or error, and
  \<open>namespaceLister\<close> maps the page limit of \<open>List\<close> to the names of the listed items or
  an error. The logger is an output: every function that logs returns its entries, in
  order, beside its result.
\<close>

record Kbcli =
  namespaceLister :: "nat \<Rightarrow> error + string list"
  kcRunner :: "string \<Rightarrow> string \<Rightarrow> string \<Rightarrow> error + string"
  cfg :: Config
  defaultNamespace :: string

text \<open>
  What the code reads from the process: the environment variable \<open>KUBECONFIG\<close> and the
  outcome of \<open>uuid.NewRandom()\<close>.
\<close>

record Process =
  getenv_KUBECONFIG :: string
  uuid_NewRandom :: "error + string"

record stateDetails =
  dropdownsBlockID :: string
  cmd :: string
  namespace :: string
  verb :: string
  resourceName :: string
  filter' :: string

datatype LogValue = LogString string | LogError error | LogState stateDetails

type_synonym LogEntry = "LogLevel \<times> string \<times> (string \<times> LogValue) list"



definition ShouldHandle :: "string \<Rightarrow> bool" where
  "ShouldHandle c = (c = [] \<or> strings_HasPrefix c interactiveBuilderIndicator)"




definition contains :: "Select option \<Rightarrow> string \<Rightarrow> bool" where
  "contains matchingTypes resourceType =
     (case matchingTypes of
        None \<Rightarrow> False
      | Some sel \<Rightarrow>
          (case InitialOption sel of
             Some initial \<Rightarrow> opt_Value initial = resourceType
           | None \<Rightarrow> False))"

definition getAllowedVerbsSelectList ::
  "string \<Rightarrow> string list \<Rightarrow> string \<Rightarrow> error + Select option" where
  "getAllowedVerbsSelectList c verbs v =
     (case GetAllowedVerbsForCmd c verbs of
        Inl err \<Rightarrow> Inl err
      | Inr allowedVerbs \<Rightarrow> Inr (VerbSelect allowedVerbs v))"

definition appendNamespaceSuffixIfDefault :: "dropdownItem \<Rightarrow> dropdownItem" where
  "appendNamespaceSuffixIfDefault i =
     (if dd_Name i = ''default'' then i\<lparr>dd_Name := dd_Name i @ '' (namespace)''\<rparr> else i)"

definition collectAdditionalNamespaces :: "Kbcli \<Rightarrow> string list \<times> LogEntry list" where
  "collectAdditionalNamespaces e =
     (if length (Namespaces (Allowed (cfg e))) > 0 then (Namespaces (Allowed (cfg e)), [])
      else (case namespaceLister e dropdownItemsLimit of
              Inl err \<Rightarrow>
                ([], [(ErrorLevel,
                       ''Cannot fetch all available Kubernetes namespaces, ignoring namespace dropdown...'',
                       [(''error'', LogError err)])])
            | Inr items \<Rightarrow> (items, [])))"

fun appendNamespaces :: "string \<Rightarrow> string list \<Rightarrow> dropdownItem list \<Rightarrow> dropdownItem list" where
  "appendNamespaces ns [] allNs = allNs"
| "appendNamespaces ns (name # rest) allNs =
     (if name = ns then appendNamespaces ns rest allNs
      else appendNamespaces ns rest (allNs @ [newDropdownItem name name]))"

definition tryToGetNamespaceSelect :: "Kbcli \<Rightarrow> stateDetails \<Rightarrow> Select option \<times> LogEntry list" where
  "tryToGetNamespaceSelect e details =
     (let initialNamespace =
            appendNamespaceSuffixIfDefault (newDropdownItem (namespace details) (namespace details));
          additional = collectAdditionalNamespaces e;
          allNs = appendNamespaces (namespace details) (fst additional) [initialNamespace]
      in (ResourceNamespaceSelect allNs initialNamespace, snd additional))"

text \<open>The command line that \<open>tryToGetResourceNamesSelect\<close> hands to the runner.\<close>

definition resourceNamesQuery :: "string \<Rightarrow> string \<Rightarrow> string" where
  "resourceNamesQuery resourceType ns =
     (let q = ''get '' @ resourceType @ '' --ignore-not-found=true -o go-template=''
               @ [CHR 0x27] @ ''{{range .items}}{{.metadata.name}}{{''
               @ [CHR 0x22, CHR 0x5C, CHR ''n'', CHR 0x22] @ ''}}{{end}}'' @ [CHR 0x27]
      in if ns \<noteq> [] then q @ '' -n '' @ ns else q)"

definition tryToGetResourceNamesSelect ::
  "Process \<Rightarrow> Kbcli \<Rightarrow> stateDetails \<Rightarrow> Select option \<times> LogEntry list" where
  "tryToGetResourceNamesSelect p e state =
     (if verb state = []
      then (EmptyResourceNameDropdown,
            [(InfoLevel, ''Get resource names'', []),
             (InfoLevel, ''Return empty resource name'', [])])
      else
        (let resourceType = GetResourceTypeForCmd (cmd state) in
         if resourceType = [] then (None, [(InfoLevel, ''Get resource names'', [])])
         else
           (let q = resourceNamesQuery resourceType (namespace state);
                lg = [(InfoLevel, ''Get resource names'', []),
                      (InfoLevel, ''Run cmd '' @ strconv_Quote q, [])]
            in case kcRunner e (getenv_KUBECONFIG p) (defaultNamespace e) q of
                 Inl err \<Rightarrow>
                   (EmptyResourceNameDropdown,
                    lg @ [(ErrorLevel,
                           ''Cannot fetch resource names. Returning empty resource name dropdown.'',
                           [(''error'', LogError err)])])
               | Inr out \<Rightarrow>
                   (let lines = getNonEmptyLines out in
                    if length lines = 0 then (EmptyResourceNameDropdown, lg)
                    else (ResourceNamesSelect (overflowSentence lines) (resourceName state), lg)))))"

definition previewText :: "stateDetails \<Rightarrow> bool \<Rightarrow> string" where
  "previewText state namespaced =
     (let c0 = kbcliCommandName @ '' '' @ cmd state @ '' '' @ verb state;
          c1 = (if resourceName state \<noteq> [] then c0 @ '' '' @ resourceName state else c0);
          c2 = (if namespaced \<and> namespace state \<noteq> [] then c1 @ '' -n '' @ namespace state else c1);
          c3 = (if filter' state \<noteq> [] then c2 @ '' --filter='' @ strconv_Quote (filter' state) else c2)
      in c3)"

definition buildCommandPreview :: "stateDetails \<Rightarrow> Section list \<times> LogEntry list" where
  "buildCommandPreview state =
     (case GetResourceDetails (cmd state) of
        Inl err \<Rightarrow>
          ([InternalErrorSection],
           [(ErrorLevel, ''Cannot get resource details'',
             [(''state'', LogState state), (''error'', LogError err)])])
      | Inr resourceDetails \<Rightarrow>
          (PreviewSection (previewText state (res_Namespaced resourceDetails)), []))"

definition renderMessage ::
  "Process \<Rightarrow> Kbcli \<Rightarrow> stateDetails \<Rightarrow> string list \<Rightarrow> string list
     \<Rightarrow> (error + Message) \<times> LogEntry list" where
  "renderMessage p e sd allCmds allVerbs =
     (case CmdSelect allCmds (cmd sd) of
        None \<Rightarrow> (Inl errRequiredCmdDropdown, [])
      | Some allCmdsSelect \<Rightarrow>
          (case getAllowedVerbsSelectList (cmd sd) allVerbs (verb sd) of
             Inl err \<Rightarrow> (Inl err, [])
           | Inr matchingVerbs \<Rightarrow>
               if matchingVerbs = None then
                 (let sd1 = sd\<lparr>verb := [], resourceName := [], namespace := []\<rparr>;
                      preview = buildCommandPreview sd1
                  in (Inr (KbcliCmdBuilderMessage (dropdownsBlockID sd1) allCmdsSelect []
                             (fst preview)),
                      snd preview))
               else if \<not> contains matchingVerbs (verb sd) then
                 (Inr (KbcliCmdBuilderMessage (dropdownsBlockID sd) allCmdsSelect
                         [matchingVerbs] []),
                  [])
               else
                 (let resNames = tryToGetResourceNamesSelect p e sd;
                      nsNames = tryToGetNamespaceSelect e sd
                  in if fst resNames = None then
                       (let sd1 = sd\<lparr>resourceName := [], namespace := []\<rparr>;
                            preview = buildCommandPreview sd1
                        in (Inr (KbcliCmdBuilderMessage (dropdownsBlockID sd1) allCmdsSelect
                                   [matchingVerbs] (fst preview)),
                            snd resNames @ snd nsNames @ snd preview))
                     else
                       (let sd1 = (if \<not> contains (fst resNames) (resourceName sd)
                                   then sd\<lparr>resourceName := []\<rparr> else sd);
                            sd2 = (if \<not> contains (fst nsNames) (namespace sd1)
                                   then sd1\<lparr>namespace := []\<rparr> else sd1);
                            preview = buildCommandPreview sd2
                        in (Inr (KbcliCmdBuilderMessage (dropdownsBlockID sd2) allCmdsSelect
                                   [matchingVerbs, fst resNames, fst nsNames] (fst preview)),
                            snd resNames @ snd nsNames @ snd preview)))))"









subsection \<open>Concrete inputs\<close>

text \<open>
  A process and two builders on the default configuration, used to run the definitions
  on concrete inputs: the runner of the first lists two clusters, the runner of the
  second fails.
\<close>

definition exampleProcess :: Process where
  "exampleProcess = \<lparr>getenv_KUBECONFIG = ''/tmp/kubeconfig'', uuid_NewRandom = Inr ''block-1''\<rparr>"

definition exampleKbcli :: Kbcli where
  "exampleKbcli =
     \<lparr>namespaceLister = (\<lambda>limit. Inr [''default'', ''kube-system'']),
      kcRunner = (\<lambda>kubeConfigPath defaultNs q. Inr (''c1'' @ [CHR 0x0A] @ ''c2'' @ [CHR 0x0A])),
      cfg = DefaultConfig,
      defaultNamespace = ''default''\<rparr>"

definition failingKbcli :: Kbcli where
  "failingKbcli =
     \<lparr>namespaceLister = (\<lambda>limit. Inr [''default'', ''kube-system'']),
      kcRunner = (\<lambda>kubeConfigPath defaultNs q. Inl (ExternalError ''exit status 1'')),
      cfg = DefaultConfig,
      defaultNamespace = ''default''\<rparr>"

definition exampleState :: stateDetails where
  "exampleState =
     \<lparr>dropdownsBlockID = ''block-1'', cmd = ''cluster'', namespace = ''default'',
      verb = ''list'', resourceName = [], filter' = []\<rparr>"

section \<open>Properties of the command guard\<close>

lemma slices_Filter_append: "slices_Filter d ss keep = d @ filter keep ss"
  by (induction ss arbitrary: d) simp_all

lemma denylist_keep:
  "(case unsupportedGlobalCmds s of Some _ \<Rightarrow> False | None \<Rightarrow> True) =
     (s \<noteq> ''playground'' \<and> s \<noteq> ''bench'')"
  by (simp add: unsupportedGlobalCmds_def)

text \<open>
  C8. \<open>FilterSupportedCmds\<close> returns exactly the candidates that are neither
  \<open>playground\<close> nor \<open>bench\<close>, in the order of the input: the result is the input with
  the denylisted entries struck out, wherever they stand. In particular it is a
  subsequence of the input and holds no denylisted entry.
\<close>

theorem FilterSupportedCmds_exact:
  "FilterSupportedCmds cs = filter (\<lambda>c. c \<noteq> ''playground'' \<and> c \<noteq> ''bench'') cs
   \<and> subseq (FilterSupportedCmds cs) cs
   \<and> set (FilterSupportedCmds cs) = set cs - {''playground'', ''bench''}"
proof -
  have eq: "FilterSupportedCmds cs = filter (\<lambda>c. c \<noteq> ''playground'' \<and> c \<noteq> ''bench'') cs"
    unfolding FilterSupportedCmds_def slices_Filter_append denylist_keep by simp
  have sub: "subseq (FilterSupportedCmds cs) cs"
    unfolding eq by simp
  have mem: "set (FilterSupportedCmds cs) = set cs - {''playground'', ''bench''}"
    unfolding eq by auto
  from eq sub mem show ?thesis by blast
qed

text \<open>
  The two string functions are the library's notions of prefix and of contiguous
  sublist.
\<close>

lemma strings_HasPrefix_prefix: "strings_HasPrefix s p = prefix p s"
  by (induction s p rule: strings_HasPrefix.induct) auto

lemma strings_Contains_sublist: "strings_Contains s t = sublist t s"
proof (induction s)
  case Nil
  show ?case by simp
next
  case (Cons c cs)
  show ?case
    by (simp add: Cons.IH strings_HasPrefix_prefix sublist_Cons_right)
qed

lemma ignoreGroups_list_all:
  "ignoreGroups groups =
     list_all (\<lambda>g. strings_Contains (snd g) ''Got empty response for'') groups"
  by (induction groups rule: ignoreGroups.induct) simp_all

lemma find_append_first:
  "List.find P (xs @ ys) = (case List.find P xs of None \<Rightarrow> List.find P ys | Some x \<Rightarrow> Some x)"
  by (induction xs) simp_all

lemma addResources_find:
  "addResources gv rs m =
     (\<lambda>name. case m name of
                Some r \<Rightarrow> Some r
              | None \<Rightarrow> List.find (\<lambda>res. api_Name res = name) rs)"
proof (induction rs arbitrary: m)
  case Nil
  show ?case by (auto split: option.splits)
next
  case (Cons r rs)
  show ?case
    by (cases "m (api_Name r)") (auto simp: Cons.IH fun_eq_iff split: option.splits)
qed

lemma addLists_find:
  "addLists items m =
     (\<lambda>name. case m name of
                Some r \<Rightarrow> Some r
              | None \<Rightarrow> List.find (\<lambda>res. api_Name res = name) (concat (map APIResources items)))"
proof (induction items arbitrary: m)
  case Nil
  show ?case by (auto split: option.splits)
next
  case (Cons i items)
  show ?case
    by (auto simp: Cons.IH addResources_find fun_eq_iff find_append_first split: option.splits)
qed

text \<open>
  C3. Given a discovery error, \<open>GetServerResourceMap\<close> succeeds exactly when the error
  is a group discovery failure all of whose per-group sub-errors carry the text
  \<open>Got empty response for\<close>; any other sub-error, and any error of another kind, makes
  it return the wrapped error. Whenever it succeeds (with a tolerated error or with
  none), the catalogue maps a name to the first descriptor of that name in the groups'
  resource lists taken in order: later descriptors of the same name are dropped.
\<close>

theorem GetServerResourceMap_tolerance:
  "GetServerResourceMap (resList, Some err) =
     (if (case err of
            ErrGroupDiscoveryFailed groups \<Rightarrow>
              list_all (\<lambda>g. strings_Contains (snd g) ''Got empty response for'') groups
          | _ \<Rightarrow> False)
      then Inr (\<lambda>name. List.find (\<lambda>res. api_Name res = name) (concat (map APIResources resList)))
      else Inl (Wrapped ''while getting resource list from K8s cluster: '' err))
   \<and> GetServerResourceMap (resList, None) =
       Inr (\<lambda>name. List.find (\<lambda>res. api_Name res = name) (concat (map APIResources resList)))"
proof -
  have m: "addLists resList Map.empty =
      (\<lambda>name. List.find (\<lambda>res. api_Name res = name) (concat (map APIResources resList)))"
    by (simp add: addLists_find)
  have ig: "shouldIgnoreResourceListError err =
      (case err of
         ErrGroupDiscoveryFailed groups \<Rightarrow>
           list_all (\<lambda>g. strings_Contains (snd g) ''Got empty response for'') groups
       | _ \<Rightarrow> False)"
    by (cases err) (simp_all add: ignoreGroups_list_all)
  show ?thesis
    unfolding GetServerResourceMap_def by (simp add: m ig)
qed

lemma GetAllowedVerbsForCmd_table:
  "GetAllowedVerbsForCmd c vs = Inr (case cmdVerbs c of None \<Rightarrow> [] | Some vs' \<Rightarrow> vs')"
  by (simp add: GetAllowedVerbsForCmd_def split: option.splits)

text \<open>
  C10. The result of \<open>GetAllowedVerbsForCmd\<close> does not depend on its \<open>verbs\<close>
  parameter: for any two lists of configured verbs it returns the same value, the entry
  of the static verb table for the command, or the nil list without error for a command
  the table does not know. So the verb menu built by \<open>getAllowedVerbsSelectList\<close> is
  the same for every configured list; with the default configuration, whose only verb
  is \<open>list\<close>, the verb menu of \<open>cluster\<close> is built from all 33 verbs of the table.
\<close>

theorem GetAllowedVerbsForCmd_ignores_verbs:
  "GetAllowedVerbsForCmd c vs1 = GetAllowedVerbsForCmd c vs2
   \<and> GetAllowedVerbsForCmd c vs1 = Inr (case cmdVerbs c of None \<Rightarrow> [] | Some vs \<Rightarrow> vs)
   \<and> getAllowedVerbsSelectList c vs1 v = getAllowedVerbsSelectList c vs2 v
   \<and> getAllowedVerbsSelectList ''cluster'' (Verbs (Allowed DefaultConfig)) v
       = Inr (VerbSelect clusterVerbs v)
   \<and> length clusterVerbs = 33
   \<and> Verbs (Allowed DefaultConfig) = [''list'']"
proof -
  have a: "GetAllowedVerbsForCmd c vs1 = Inr (case cmdVerbs c of None \<Rightarrow> [] | Some vs \<Rightarrow> vs)"
    by (rule GetAllowedVerbsForCmd_table)
  have a2: "GetAllowedVerbsForCmd c vs1 = GetAllowedVerbsForCmd c vs2"
    by (simp add: GetAllowedVerbsForCmd_table)
  have b: "getAllowedVerbsSelectList c vs1 v = getAllowedVerbsSelectList c vs2 v"
    by (simp add: getAllowedVerbsSelectList_def GetAllowedVerbsForCmd_table)
  have cl: "cmdVerbs ''cluster'' = Some clusterVerbs"
    by (simp add: cmdVerbs_def)
  have c: "getAllowedVerbsSelectList ''cluster'' (Verbs (Allowed DefaultConfig)) v
       = Inr (VerbSelect clusterVerbs v)"
    by (simp add: getAllowedVerbsSelectList_def GetAllowedVerbsForCmd_table cl)
  have d: "length clusterVerbs = 33"
    by (simp add: clusterVerbs_def)
  have e: "Verbs (Allowed DefaultConfig) = [''list'']"
    by (simp add: DefaultConfig_def)
  from a2 a b c d e show ?thesis by blast
qed

section \<open>Properties of the builder\<close>

subsection \<open>The menus\<close>

lemma item_in_slice: "(newDropdownItem v v \<in> set (dropdownItemsFromSlice vs)) = (v \<in> set vs)"
  by (auto simp: dropdownItemsFromSlice_def newDropdownItem_def)

lemma slice_Nil: "(dropdownItemsFromSlice vs = []) = (vs = [])"
  by (simp add: dropdownItemsFromSlice_def)

lemma toOption_slice:
  "map toOption (dropdownItemsFromSlice vs) = map (\<lambda>n. \<lparr>opt_Name = n, opt_Value = n\<rparr>) vs"
  by (simp add: dropdownItemsFromSlice_def toOption_def newDropdownItem_def)

lemma CmdSelect_eq:
  "CmdSelect cs c =
     (if cs = [] then None
      else Some \<lparr>Command = cmdsDropdownCommand,
                 Options = map (\<lambda>n. \<lparr>opt_Name = n, opt_Value = n\<rparr>) cs,
                 InitialOption =
                   (if c \<in> set cs then Some \<lparr>opt_Name = c, opt_Value = c\<rparr> else None)\<rparr>)"
  by (simp add: CmdSelect_def selectDropdown_def item_in_slice slice_Nil toOption_slice)
     (simp add: toOption_def newDropdownItem_def)

lemma VerbSelect_eq:
  "VerbSelect vs v =
     (if vs = [] then None
      else Some \<lparr>Command = verbsDropdownCommand,
                 Options = map (\<lambda>n. \<lparr>opt_Name = n, opt_Value = n\<rparr>) vs,
                 InitialOption =
                   (if v \<in> set vs then Some \<lparr>opt_Name = v, opt_Value = v\<rparr> else None)\<rparr>)"
  by (simp add: VerbSelect_def selectDropdown_def item_in_slice slice_Nil toOption_slice)
     (simp add: toOption_def newDropdownItem_def)

lemma contains_VerbSelect: "contains (VerbSelect vs v) v = (v \<in> set vs)"
  by (auto simp: contains_def VerbSelect_eq)

lemma getAllowedVerbsSelectList_eq:
  "getAllowedVerbsSelectList c vs v =
     Inr (VerbSelect (case cmdVerbs c of None \<Rightarrow> [] | Some vs' \<Rightarrow> vs') v)"
  by (simp add: getAllowedVerbsSelectList_def GetAllowedVerbsForCmd_table)

lemma cmdVerbs_None_cmdResource: "cmdVerbs c = None \<Longrightarrow> cmdResource c = None"
  by (simp add: cmdVerbs_def cmdResource_def split: if_splits)

lemma cmdVerbs_nonempty_verbs: "cmdVerbs c = Some vs \<Longrightarrow> [] \<notin> set vs \<and> vs \<noteq> []"
  by (auto simp: cmdVerbs_def clusterVerbs_def kubeblocksVerbs_def split: if_splits)

lemma appendNamespaces_eq:
  "appendNamespaces ns names allNs =
     allNs @ map (\<lambda>n. newDropdownItem n n) (filter (\<lambda>n. n \<noteq> ns) names)"
  by (induction names arbitrary: allNs) simp_all

lemma tryToGetNamespaceSelect_initial:
  "map_option InitialOption (fst (tryToGetNamespaceSelect e sd)) =
     Some (Some (toOption (appendNamespaceSuffixIfDefault
                    (newDropdownItem (namespace sd) (namespace sd)))))"
  by (simp add: tryToGetNamespaceSelect_def Let_def ResourceNamespaceSelect_def
      selectDropdown_def appendNamespaces_eq)

lemma suffix_value: "dd_Value (appendNamespaceSuffixIfDefault i) = dd_Value i"
  by (simp add: appendNamespaceSuffixIfDefault_def)

lemma contains_namespace: "contains (fst (tryToGetNamespaceSelect e sd)) (namespace sd)"
  using tryToGetNamespaceSelect_initial[of e sd]
  by (cases "fst (tryToGetNamespaceSelect e sd)")
     (simp_all add: contains_def toOption_def suffix_value newDropdownItem_def)

lemma getNonEmptyLines_nonempty: "[] \<notin> set (getNonEmptyLines out)"
  by (simp add: getNonEmptyLines_def)

lemma splitLines_no_newline: "l \<in> set (splitLines out) \<Longrightarrow> CHR 0x0A \<notin> set l"
proof (induction out arbitrary: l)
  case Nil
  then show ?case by simp
next
  case (Cons c cs)
  then show ?case
    by (cases "splitLines cs") (auto split: if_splits)
qed

lemma getNonEmptyLines_no_newline: "l \<in> set (getNonEmptyLines out) \<Longrightarrow> CHR 0x0A \<notin> set l"
  by (auto simp: getNonEmptyLines_def dest: splitLines_no_newline)

lemma overflowSentence_Nil: "(overflowSentence names = []) = (names = [])"
  by (auto simp: overflowSentence_def slice_Nil dropdownItemsLimit_def)

lemma overflowSentence_length: "length (overflowSentence names) \<le> dropdownItemsLimit + 1"
  by (simp add: overflowSentence_def dropdownItemsFromSlice_def)

lemma ResourceNamesSelect_None: "(ResourceNamesSelect items r = None) = (items = [])"
  by (simp add: ResourceNamesSelect_def selectDropdown_def)

lemma truncationNotice_value: "opt_Value (toOption (truncationNotice k)) = []"
  by (simp add: truncationNotice_def toOption_def)

subsection \<open>The steps of a render pass\<close>

lemma buildCommandPreview_eq:
  "buildCommandPreview sd =
     (PreviewSection
         (''kbcli '' @ cmd sd @ '' '' @ verb sd
            @ (if resourceName sd \<noteq> [] then '' '' @ resourceName sd else [])
            @ (if (case cmdResource (cmd sd) of Some r \<Rightarrow> res_Namespaced r | None \<Rightarrow> False)
                    \<and> namespace sd \<noteq> []
               then '' -n '' @ namespace sd else [])
            @ (if filter' sd \<noteq> [] then '' --filter='' @ strconv_Quote (filter' sd) else [])),
      [])"
  by (simp add: buildCommandPreview_def GetResourceDetails_def previewText_def Let_def
      kbcliCommandName_def split: option.splits)

lemma buildCommandPreview_no_log: "snd (buildCommandPreview sd) = []"
  by (simp add: buildCommandPreview_eq)

lemma tryToGetResourceNamesSelect_eq:
  assumes "verb sd \<noteq> []" "GetResourceTypeForCmd (cmd sd) \<noteq> []"
  shows "tryToGetResourceNamesSelect p e sd =
      (case kcRunner e (getenv_KUBECONFIG p) (defaultNamespace e)
              (resourceNamesQuery (GetResourceTypeForCmd (cmd sd)) (namespace sd)) of
         Inl err \<Rightarrow>
           (EmptyResourceNameDropdown,
            [(InfoLevel, ''Get resource names'', []),
             (InfoLevel,
              ''Run cmd '' @ strconv_Quote (resourceNamesQuery (GetResourceTypeForCmd (cmd sd)) (namespace sd)),
              []),
             (ErrorLevel, ''Cannot fetch resource names. Returning empty resource name dropdown.'',
              [(''error'', LogError err)])])
       | Inr out \<Rightarrow>
           (if getNonEmptyLines out = [] then EmptyResourceNameDropdown
            else ResourceNamesSelect (overflowSentence (getNonEmptyLines out)) (resourceName sd),
            [(InfoLevel, ''Get resource names'', []),
             (InfoLevel,
              ''Run cmd '' @ strconv_Quote (resourceNamesQuery (GetResourceTypeForCmd (cmd sd)) (namespace sd)),
              [])]))"
  using assms
  by (simp add: tryToGetResourceNamesSelect_def Let_def split: sum.splits)

lemma tryToGetResourceNamesSelect_present:
  assumes "verb sd \<noteq> []" "GetResourceTypeForCmd (cmd sd) \<noteq> []"
  shows "fst (tryToGetResourceNamesSelect p e sd) \<noteq> None"
  using assms
  by (simp add: tryToGetResourceNamesSelect_eq EmptyResourceNameDropdown_def
      ResourceNamesSelect_None overflowSentence_Nil split: sum.splits del: not_None_eq)

lemma renderMessage_full:
  assumes vs: "cmdVerbs (cmd sd) = Some vs" and v: "verb sd \<in> set vs"
    and rt: "GetResourceTypeForCmd (cmd sd) \<noteq> []" and cs: "allCmds \<noteq> []"
  shows "renderMessage p e sd allCmds allVerbs =
     (Inr (KbcliCmdBuilderMessage (dropdownsBlockID sd)
             \<lparr>Command = cmdsDropdownCommand,
              Options = map (\<lambda>n. \<lparr>opt_Name = n, opt_Value = n\<rparr>) allCmds,
              InitialOption =
                (if cmd sd \<in> set allCmds
                 then Some \<lparr>opt_Name = cmd sd, opt_Value = cmd sd\<rparr> else None)\<rparr>
             [VerbSelect vs (verb sd), fst (tryToGetResourceNamesSelect p e sd),
              fst (tryToGetNamespaceSelect e sd)]
             (fst (buildCommandPreview
                     (if contains (fst (tryToGetResourceNamesSelect p e sd)) (resourceName sd)
                      then sd else sd\<lparr>resourceName := []\<rparr>)))),
      snd (tryToGetResourceNamesSelect p e sd) @ snd (tryToGetNamespaceSelect e sd))"
proof -
  from vs have e: "[] \<notin> set vs" and ne: "vs \<noteq> []"
    using cmdVerbs_nonempty_verbs by blast+
  from v e have vne: "verb sd \<noteq> []" by auto
  have pres: "fst (tryToGetResourceNamesSelect p e sd) \<noteq> None"
    using vne rt by (rule tryToGetResourceNamesSelect_present)
  have vsel: "VerbSelect vs (verb sd) \<noteq> None"
    using ne by (simp add: VerbSelect_eq)
  have cv: "contains (VerbSelect vs (verb sd)) (verb sd)"
    using v by (simp add: contains_VerbSelect)
  have cn: "contains (fst (tryToGetNamespaceSelect e sd)) (namespace sd)"
    by (rule contains_namespace)
  have cn': "contains (fst (tryToGetNamespaceSelect e sd)) (namespace (sd\<lparr>resourceName := []\<rparr>))"
    using cn by simp
  from pres obtain rsel where rsel: "fst (tryToGetResourceNamesSelect p e sd) = Some rsel"
    by auto
  from vsel obtain vsel' where vsel': "VerbSelect vs (verb sd) = Some vsel'"
    by auto
  show ?thesis
    unfolding renderMessage_def
    using cs vs cv cn cn'
    by (simp add: CmdSelect_eq getAllowedVerbsSelectList_eq Let_def buildCommandPreview_no_log
        rsel vsel')
qed


subsection \<open>The dispatcher\<close>




subsection \<open>The render pass\<close>




text \<open>
  C4 (as amended). With command \<open>cluster\<close>, verb \<open>list\<close> and namespace \<open>default\<close>
  (no resource name, no filter) the text handed to the preview is exactly
  \<open>kbcli cluster list -n default\<close>: it starts with the name of the binary. The
  namespace menu then pre-selects the option labelled \<open>default (namespace)\<close> whose
  value is still \<open>default\<close>: the suffix changes the label of a dropdown item and never
  its value, and the preview is built from the state's namespace. In general the text
  is \<open>kbcli\<close>, the command and the verb, then the resource name if set, then the
  \<open>-n\<close> fragment exactly when the command's resource is namespaced and a namespace is
  set, then the \<open>--filter\<close> fragment exactly when the filter text is not empty.
\<close>

theorem command_preview_text:
  "fst (buildCommandPreview
          \<lparr>dropdownsBlockID = b, cmd = ''cluster'', namespace = ''default'', verb = ''list'',
           resourceName = [], filter' = []\<rparr>)
     = PreviewSection ''kbcli cluster list -n default''
   \<and> map_option InitialOption
       (fst (tryToGetNamespaceSelect e
          \<lparr>dropdownsBlockID = b, cmd = ''cluster'', namespace = ''default'', verb = ''list'',
           resourceName = [], filter' = []\<rparr>))
     = Some (Some \<lparr>opt_Name = ''default (namespace)'', opt_Value = ''default''\<rparr>)
   \<and> dd_Value (appendNamespaceSuffixIfDefault i) = dd_Value i
   \<and> fst (buildCommandPreview sd) =
       PreviewSection
         (''kbcli '' @ cmd sd @ '' '' @ verb sd
            @ (if resourceName sd \<noteq> [] then '' '' @ resourceName sd else [])
            @ (if (case cmdResource (cmd sd) of Some r \<Rightarrow> res_Namespaced r | None \<Rightarrow> False)
                    \<and> namespace sd \<noteq> []
               then '' -n '' @ namespace sd else [])
            @ (if filter' sd \<noteq> [] then '' --filter='' @ strconv_Quote (filter' sd) else []))"
proof -
  have a: "fst (buildCommandPreview
          \<lparr>dropdownsBlockID = b, cmd = ''cluster'', namespace = ''default'', verb = ''list'',
           resourceName = [], filter' = []\<rparr>)
     = PreviewSection ''kbcli cluster list -n default''"
    by (simp add: buildCommandPreview_eq cmdResource_def)
  have b: "map_option InitialOption
       (fst (tryToGetNamespaceSelect e
          \<lparr>dropdownsBlockID = b, cmd = ''cluster'', namespace = ''default'', verb = ''list'',
           resourceName = [], filter' = []\<rparr>))
     = Some (Some \<lparr>opt_Name = ''default (namespace)'', opt_Value = ''default''\<rparr>)"
    by (simp add: tryToGetNamespaceSelect_initial toOption_def appendNamespaceSuffixIfDefault_def
        newDropdownItem_def)
  have c: "dd_Value (appendNamespaceSuffixIfDefault i) = dd_Value i"
    by (rule suffix_value)
  have d: "fst (buildCommandPreview sd) =
       PreviewSection
         (''kbcli '' @ cmd sd @ '' '' @ verb sd
            @ (if resourceName sd \<noteq> [] then '' '' @ resourceName sd else [])
            @ (if (case cmdResource (cmd sd) of Some r \<Rightarrow> res_Namespaced r | None \<Rightarrow> False)
                    \<and> namespace sd \<noteq> []
               then '' -n '' @ namespace sd else [])
            @ (if filter' sd \<noteq> [] then '' --filter='' @ strconv_Quote (filter' sd) else []))"
    by (simp add: buildCommandPreview_eq)
  from a b c d show ?thesis by blast
qed

text \<open>
  The claim as stated fails: the preview text for \<open>cluster\<close>, \<open>list\<close>, \<open>default\<close> is
  not \<open>cluster list -n default\<close>.
\<close>

theorem preview_text_counterexample:
  "previewText exampleState True = ''kbcli cluster list -n default''
   \<and> previewText exampleState True \<noteq> ''cluster list -n default''
   \<and> fst (buildCommandPreview exampleState) = PreviewSection (previewText exampleState True)"
  by code_simp

text \<open>
  C5 (as amended). Let the root menu exist (the command list is not empty). For
  every command whose verb lookup gives no verb set, the render pass returns a message
  with one block of menus holding only the command menu, and one preview whose text is
  \<open>kbcli\<close>, the command and, when the filter text is not empty, the \<open>--filter\<close>
  fragment; no verb, resource name or namespace. The pass clears the three fields: its
  result is the result for the state with verb, resource name and namespace empty.
\<close>

theorem renderMessage_command_without_verbs:
  assumes nov: "cmdVerbs (cmd sd) = None" and cs: "allCmds \<noteq> []"
  shows "renderMessage p e sd allCmds allVerbs =
           (Inr \<lparr>ReplaceOriginal = True, OnlyVisibleForYou = True,
                 Sections =
                   SelectsSection (dropdownsBlockID sd)
                      [\<lparr>Command = cmdsDropdownCommand,
                        Options = map (\<lambda>n. \<lparr>opt_Name = n, opt_Value = n\<rparr>) allCmds,
                        InitialOption =
                          (if cmd sd \<in> set allCmds
                           then Some \<lparr>opt_Name = cmd sd, opt_Value = cmd sd\<rparr> else None)\<rparr>]
                   # PreviewSection
                      (''kbcli '' @ cmd sd @ '' ''
                         @ (if filter' sd \<noteq> []
                            then '' --filter='' @ strconv_Quote (filter' sd) else [])),
                 BaseBody = []\<rparr>,
            [])
         \<and> renderMessage p e sd allCmds allVerbs =
             renderMessage p e (sd\<lparr>verb := [], resourceName := [], namespace := []\<rparr>) allCmds allVerbs"
proof -
  have r: "cmdResource (cmd sd) = None"
    using nov by (rule cmdVerbs_None_cmdResource)
  have one: "renderMessage p e sd' allCmds allVerbs =
           (Inr \<lparr>ReplaceOriginal = True, OnlyVisibleForYou = True,
                 Sections =
                   SelectsSection (dropdownsBlockID sd)
                      [\<lparr>Command = cmdsDropdownCommand,
                        Options = map (\<lambda>n. \<lparr>opt_Name = n, opt_Value = n\<rparr>) allCmds,
                        InitialOption =
                          (if cmd sd \<in> set allCmds
                           then Some \<lparr>opt_Name = cmd sd, opt_Value = cmd sd\<rparr> else None)\<rparr>]
                   # PreviewSection
                      (''kbcli '' @ cmd sd @ '' ''
                         @ (if filter' sd \<noteq> []
                            then '' --filter='' @ strconv_Quote (filter' sd) else [])),
                 BaseBody = []\<rparr>,
            [])"
    if "cmd sd' = cmd sd" "filter' sd' = filter' sd" "dropdownsBlockID sd' = dropdownsBlockID sd"
    for sd'
    using that nov cs r
    by (simp add: renderMessage_def CmdSelect_eq getAllowedVerbsSelectList_eq VerbSelect_eq
        buildCommandPreview_eq KbcliCmdBuilderMessage_def List.map_filter_simps)
  show ?thesis
    by (simp add: one)
qed

text \<open>The theorem for the command \<open>addon\<close>, which has no entry in the verb table.\<close>

theorem renderMessage_command_without_verbs_witness:
  "cmdVerbs ''addon'' = None
   \<and> renderMessage exampleProcess exampleKbcli
       (exampleState\<lparr>cmd := ''addon'', resourceName := ''c1''\<rparr>) [''cluster'', ''addon''] [''list'']
     = (Inr \<lparr>ReplaceOriginal = True, OnlyVisibleForYou = True,
             Sections =
               [SelectsSection ''block-1''
                  [\<lparr>Command = ''@builder --cmds'',
                    Options = [\<lparr>opt_Name = ''cluster'', opt_Value = ''cluster''\<rparr>,
                               \<lparr>opt_Name = ''addon'', opt_Value = ''addon''\<rparr>],
                    InitialOption = Some \<lparr>opt_Name = ''addon'', opt_Value = ''addon''\<rparr>\<rparr>],
                PreviewBlock ''kbcli addon ''],
             BaseBody = []\<rparr>,
        [])"
proof -
  have n: "cmdVerbs (cmd (exampleState\<lparr>cmd := ''addon'', resourceName := ''c1''\<rparr>)) = None"
    by (simp add: cmdVerbs_def)
  have c: "[''cluster'', ''addon''] \<noteq> []"
    by simp
  show ?thesis
    using renderMessage_command_without_verbs[OF n c, of exampleProcess exampleKbcli "[''list'']"]
    by (simp add: exampleState_def cmdVerbs_def cmdsDropdownCommand_def PreviewSection_def)
qed

text \<open>
  The claim as stated fails: for the command \<open>addon\<close> with the filter text \<open>x\<close> the
  preview holds the filter fragment beside the command.
\<close>

theorem preview_with_filter_counterexample:
  "cmdVerbs ''addon'' = None
   \<and> map_sum id Sections
       (fst (renderMessage exampleProcess exampleKbcli
          \<lparr>dropdownsBlockID = ''block-1'', cmd = ''addon'', namespace = ''default'', verb = [],
           resourceName = [], filter' = ''x''\<rparr> [''addon''] [''list'']))
     = Inr [SelectsSection ''block-1''
              [\<lparr>Command = ''@builder --cmds'',
                Options = [\<lparr>opt_Name = ''addon'', opt_Value = ''addon''\<rparr>],
                InitialOption = Some \<lparr>opt_Name = ''addon'', opt_Value = ''addon''\<rparr>\<rparr>],
            PreviewBlock (''kbcli addon  --filter='' @ [CHR 0x22] @ ''x'' @ [CHR 0x22])]"
  by code_simp

text \<open>
  C7. The render result is a function of the state, the command and verb lists and
  the answers of the collaborators, and of nothing else: two builders with the same
  configuration and default namespace whose namespace listers give the same answer,
  and whose runners give the same answer to the one query the pass can issue for this
  state, produce the same message and the same log entries, whatever else differs
  between them or between the two processes.
\<close>

theorem renderMessage_deterministic:
  assumes c: "cfg e1 = cfg e2" and d: "defaultNamespace e1 = defaultNamespace e2"
    and l: "namespaceLister e1 dropdownItemsLimit = namespaceLister e2 dropdownItemsLimit"
    and r: "kcRunner e1 (getenv_KUBECONFIG p1) (defaultNamespace e1)
              (resourceNamesQuery (GetResourceTypeForCmd (cmd sd)) (namespace sd))
          = kcRunner e2 (getenv_KUBECONFIG p2) (defaultNamespace e2)
              (resourceNamesQuery (GetResourceTypeForCmd (cmd sd)) (namespace sd))"
  shows "renderMessage p1 e1 sd allCmds allVerbs = renderMessage p2 e2 sd allCmds allVerbs"
proof -
  have ns: "tryToGetNamespaceSelect e1 sd = tryToGetNamespaceSelect e2 sd"
    using c l by (simp add: tryToGetNamespaceSelect_def collectAdditionalNamespaces_def)
  have rn: "tryToGetResourceNamesSelect p1 e1 sd = tryToGetResourceNamesSelect p2 e2 sd"
    using r by (simp add: tryToGetResourceNamesSelect_def Let_def)
  show ?thesis
    unfolding renderMessage_def ns rn by (rule refl)
qed

text \<open>
  The theorem for two builders whose runners differ on a query the pass never issues,
  in two processes that differ in the identifier drawn.
\<close>

theorem renderMessage_deterministic_witness:
  "renderMessage exampleProcess exampleKbcli exampleState [''cluster''] [''list'']
     = renderMessage (exampleProcess\<lparr>uuid_NewRandom := Inr ''block-2''\<rparr>)
         (exampleKbcli\<lparr>kcRunner := (\<lambda>k d q. if q = ''options'' then Inl (ExternalError ''no'')
                                             else Inr (''c1'' @ [CHR 0x0A] @ ''c2'' @ [CHR 0x0A]))\<rparr>)
         exampleState [''cluster''] [''list'']"
  using renderMessage_deterministic
    [of exampleKbcli
        "exampleKbcli\<lparr>kcRunner := (\<lambda>k d q. if q = ''options'' then Inl (ExternalError ''no'')
                                             else Inr (''c1'' @ [CHR 0x0A] @ ''c2'' @ [CHR 0x0A]))\<rparr>"
        exampleProcess exampleState "exampleProcess\<lparr>uuid_NewRandom := Inr ''block-2''\<rparr>"
        "[''cluster'']" "[''list'']"]
  by (simp add: exampleKbcli_def exampleState_def resourceNamesQuery_def
       GetResourceTypeForCmd_def cmdResource_def)

text \<open>
  C9. Take a state whose verb is confirmed for its command, a command with a fixed
  resource kind, and a root menu that exists. If the runner fails, resource-name
  resolution gives the explicit empty menu and its last log entry is the error; if the
  runner succeeds, its output is split into non-empty lines, and these (cut at the cap)
  are the names of the menu, or the explicit empty menu when there is no line. In both
  cases the render pass returns a message, never an error: the command menu, the verb
  menu, the resource-name menu just described and the namespace menu, with the preview.
  Every name is a non-empty line and the option list has at most 101 entries.
\<close>

theorem resource_names_runner_outcome:
  assumes vs: "cmdVerbs (cmd sd) = Some vs" and v: "verb sd \<in> set vs"
    and rt: "GetResourceTypeForCmd (cmd sd) \<noteq> []" and cs: "allCmds \<noteq> []"
  shows "tryToGetResourceNamesSelect p e sd =
      (case kcRunner e (getenv_KUBECONFIG p) (defaultNamespace e)
              (resourceNamesQuery (GetResourceTypeForCmd (cmd sd)) (namespace sd)) of
         Inl err \<Rightarrow>
           (EmptyResourceNameDropdown,
            [(InfoLevel, ''Get resource names'', []),
             (InfoLevel,
              ''Run cmd '' @ strconv_Quote (resourceNamesQuery (GetResourceTypeForCmd (cmd sd)) (namespace sd)),
              []),
             (ErrorLevel, ''Cannot fetch resource names. Returning empty resource name dropdown.'',
              [(''error'', LogError err)])])
       | Inr out \<Rightarrow>
           (if getNonEmptyLines out = [] then EmptyResourceNameDropdown
            else ResourceNamesSelect (overflowSentence (getNonEmptyLines out)) (resourceName sd),
            [(InfoLevel, ''Get resource names'', []),
             (InfoLevel,
              ''Run cmd '' @ strconv_Quote (resourceNamesQuery (GetResourceTypeForCmd (cmd sd)) (namespace sd)),
              [])]))
    \<and> renderMessage p e sd allCmds allVerbs =
     (Inr (KbcliCmdBuilderMessage (dropdownsBlockID sd)
             \<lparr>Command = cmdsDropdownCommand,
              Options = map (\<lambda>n. \<lparr>opt_Name = n, opt_Value = n\<rparr>) allCmds,
              InitialOption =
                (if cmd sd \<in> set allCmds
                 then Some \<lparr>opt_Name = cmd sd, opt_Value = cmd sd\<rparr> else None)\<rparr>
             [VerbSelect vs (verb sd), fst (tryToGetResourceNamesSelect p e sd),
              fst (tryToGetNamespaceSelect e sd)]
             (fst (buildCommandPreview
                     (if contains (fst (tryToGetResourceNamesSelect p e sd)) (resourceName sd)
                      then sd else sd\<lparr>resourceName := []\<rparr>)))),
      snd (tryToGetResourceNamesSelect p e sd) @ snd (tryToGetNamespaceSelect e sd))
    \<and> [] \<notin> set (getNonEmptyLines out')
    \<and> length (overflowSentence (getNonEmptyLines out')) \<le> dropdownItemsLimit + 1"
proof -
  from vs have "[] \<notin> set vs"
    using cmdVerbs_nonempty_verbs by blast
  with v have vne: "verb sd \<noteq> []" by auto
  have a: "tryToGetResourceNamesSelect p e sd =
      (case kcRunner e (getenv_KUBECONFIG p) (defaultNamespace e)
              (resourceNamesQuery (GetResourceTypeForCmd (cmd sd)) (namespace sd)) of
         Inl err \<Rightarrow>
           (EmptyResourceNameDropdown,
            [(InfoLevel, ''Get resource names'', []),
             (InfoLevel,
              ''Run cmd '' @ strconv_Quote (resourceNamesQuery (GetResourceTypeForCmd (cmd sd)) (namespace sd)),
              []),
             (ErrorLevel, ''Cannot fetch resource names. Returning empty resource name dropdown.'',
              [(''error'', LogError err)])])
       | Inr out \<Rightarrow>
           (if getNonEmptyLines out = [] then EmptyResourceNameDropdown
            else ResourceNamesSelect (overflowSentence (getNonEmptyLines out)) (resourceName sd),
            [(InfoLevel, ''Get resource names'', []),
             (InfoLevel,
              ''Run cmd '' @ strconv_Quote (resourceNamesQuery (GetResourceTypeForCmd (cmd sd)) (namespace sd)),
              [])]))"
    using vne rt by (rule tryToGetResourceNamesSelect_eq)
  note b = renderMessage_full[OF vs v rt cs, of p e allVerbs]
  note c = getNonEmptyLines_nonempty[of out']
  note d = overflowSentence_length[of "getNonEmptyLines out'"]
  from a b c d show ?thesis by blast
qed

text \<open>The theorem for a runner that fails, on the command \<open>cluster\<close> with the verb \<open>list\<close>.\<close>

theorem resource_names_runner_outcome_witness:
  "tryToGetResourceNamesSelect exampleProcess failingKbcli exampleState =
     (EmptyResourceNameDropdown,
      [(InfoLevel, ''Get resource names'', []),
       (InfoLevel, ''Run cmd '' @ strconv_Quote (resourceNamesQuery ''cluster'' ''default''), []),
       (ErrorLevel, ''Cannot fetch resource names. Returning empty resource name dropdown.'',
        [(''error'', LogError (ExternalError ''exit status 1''))])])
   \<and> fst (renderMessage exampleProcess failingKbcli exampleState [''cluster''] [''list'']) =
       Inr (KbcliCmdBuilderMessage ''block-1''
              \<lparr>Command = cmdsDropdownCommand,
               Options = [\<lparr>opt_Name = ''cluster'', opt_Value = ''cluster''\<rparr>],
               InitialOption = Some \<lparr>opt_Name = ''cluster'', opt_Value = ''cluster''\<rparr>\<rparr>
              [VerbSelect clusterVerbs ''list'', EmptyResourceNameDropdown,
               fst (tryToGetNamespaceSelect failingKbcli exampleState)]
              (PreviewSection ''kbcli cluster list -n default''))"
proof -
  have vs: "cmdVerbs (cmd exampleState) = Some clusterVerbs"
    by (simp add: exampleState_def cmdVerbs_def)
  have v: "verb exampleState \<in> set clusterVerbs"
    by (simp add: exampleState_def clusterVerbs_def)
  have rt: "GetResourceTypeForCmd (cmd exampleState) \<noteq> []"
    by (simp add: exampleState_def GetResourceTypeForCmd_def cmdResource_def)
  have rt': "GetResourceTypeForCmd ''cluster'' = ''cluster''"
    by (simp add: GetResourceTypeForCmd_def cmdResource_def)
  have cs: "[''cluster''] \<noteq> []"
    by simp
  have st: "cmd exampleState = ''cluster''" "namespace exampleState = ''default''"
    "verb exampleState = ''list''" "resourceName exampleState = []"
    "dropdownsBlockID exampleState = ''block-1''"
    by (simp_all add: exampleState_def)
  have run: "kcRunner failingKbcli k d q = Inl (ExternalError ''exit status 1'')" for k d q
    by (simp add: failingKbcli_def)
  have pv: "fst (buildCommandPreview exampleState) = PreviewSection ''kbcli cluster list -n default''"
    by (simp add: buildCommandPreview_eq exampleState_def cmdResource_def)
  have same: "exampleState\<lparr>resourceName := []\<rparr> = exampleState"
    by (simp add: exampleState_def)
  from resource_names_runner_outcome[OF vs v rt cs, of exampleProcess failingKbcli "[''list'']" "[]"]
  show ?thesis
    by (simp add: st rt' run pv same)
qed

text \<open>
  C6. For every list of more than 100 resource names, none of them empty (as the lines
  that \<open>getNonEmptyLines\<close> returns are), the resource-name menu holds the first 100
  names, in order, as options, followed by exactly one synthetic option, 101 in all;
  the value of the synthetic option is none of the names of the list.
\<close>

theorem overflowSentence_cap:
  assumes long: "length names > 100" and real: "[] \<notin> set names"
  shows "map_option Options (ResourceNamesSelect (overflowSentence names) r) =
           Some (map (\<lambda>n. \<lparr>opt_Name = n, opt_Value = n\<rparr>) (take 100 names)
                 @ [toOption (truncationNotice (length names - 100))])
         \<and> length (overflowSentence names) = 101
         \<and> opt_Value (toOption (truncationNotice (length names - 100))) \<notin> set names"
proof -
  have os: "overflowSentence names =
      dropdownItemsFromSlice (take 100 names) @ [truncationNotice (length names - 100)]"
    using long by (simp add: overflowSentence_def dropdownItemsLimit_def)
  have len: "length (overflowSentence names) = 101"
    using long unfolding os by (simp add: dropdownItemsFromSlice_def)
  have sel: "map_option Options (ResourceNamesSelect (overflowSentence names) r) =
           Some (map (\<lambda>n. \<lparr>opt_Name = n, opt_Value = n\<rparr>) (take 100 names)
                 @ [toOption (truncationNotice (length names - 100))])"
    unfolding os by (simp add: ResourceNamesSelect_def selectDropdown_def toOption_slice)
  have val: "opt_Value (toOption (truncationNotice (length names - 100))) \<notin> set names"
    using real by (simp add: truncationNotice_value)
  from sel len val show ?thesis by blast
qed

text \<open>The theorem for a list of 101 names.\<close>

theorem overflowSentence_cap_witness:
  "length (replicate 101 ''pg-cluster'') > 100 \<and> [] \<notin> set (replicate 101 ''pg-cluster'')
   \<and> map_option Options (ResourceNamesSelect (overflowSentence (replicate 101 ''pg-cluster'')) []) =
           Some (map (\<lambda>n. \<lparr>opt_Name = n, opt_Value = n\<rparr>) (take 100 (replicate 101 ''pg-cluster''))
                 @ [\<lparr>opt_Name = ''... and 1 more'', opt_Value = []\<rparr>])
   \<and> length (overflowSentence (replicate 101 ''pg-cluster'')) = 101"
proof -
  have long: "length (replicate 101 ''pg-cluster'') > 100" by simp
  have real: "[] \<notin> set (replicate 101 ''pg-cluster'')" by simp
  have notice: "toOption (truncationNotice (length (replicate 101 ''pg-cluster'') - 100))
                  = \<lparr>opt_Name = ''... and 1 more'', opt_Value = []\<rparr>"
    by code_simp
  from overflowSentence_cap[OF long real, of "[]"] long real
  show ?thesis
    unfolding notice by blast
qed

end
